theory Spec2Isabelle
  imports Main "HOL-Library.Sublist"
begin

section \<open>The Mediator example: object graph, actions and notification dispatch\<close>

text \<open>
  The program of \<^verbatim>\<open>design_patterns/behaviorals/mediator.py\<close> is a cyclic object graph:
  a \<^verbatim>\<open>ConcreteMediator\<close> refers to two components and each component refers back to its
  mediator. Objects therefore live in an explicit store and refer to each other by
  address. Every method takes the world (store and standard output) and returns the
  world it leaves behind together with the exception it raised, if any: output written
  before an exception stays written, as it does in Python.
\<close>

subsection \<open>Data model\<close>

type_synonym addr = nat

text \<open>
  One constructor per class of the module. \<^verbatim>\<open>Mediator\<close> declares no abstract method and
  \<^verbatim>\<open>BaseComponent\<close> is an ordinary class, so both can be instantiated. A component's
  \<^verbatim>\<open>_mediator\<close> field is \<^verbatim>\<open>None\<close> or a reference.
\<close>

datatype obj =
    Mediator
  | ConcreteMediator addr addr
  | BaseComponent "addr option"
  | Component1 "addr option"
  | Component2 "addr option"

text \<open>
  \<open>AttributeError c a\<close> is Python's \<^verbatim>\<open>AttributeError\<close> for a missing attribute \<open>a\<close> on
  an object of class \<open>c\<close>. Python references never dangle; since the store of the model
  is a list indexed by address, a reference beyond its end is given an outcome of its
  own, \<open>InvalidReference\<close>, instead of an unspecified value.
\<close>

datatype error =
    AttributeError string string
  | InvalidReference addr

record world =
  heap :: "obj list"
  stdout :: string

type_synonym outcome = "world \<times> error option"

definition lookup :: "world \<Rightarrow> addr \<Rightarrow> obj option" where
  "lookup w a = (if a < length (heap w) then Some (heap w ! a) else None)"

fun class_name :: "obj \<Rightarrow> string" where
  "class_name Mediator = ''Mediator''"
| "class_name (ConcreteMediator _ _) = ''ConcreteMediator''"
| "class_name (BaseComponent _) = ''BaseComponent''"
| "class_name (Component1 _) = ''Component1''"
| "class_name (Component2 _) = ''Component2''"

text \<open>The text of the exception, as the interpreter reports it.\<close>

fun error_message :: "error \<Rightarrow> string" where
  "error_message (AttributeError c a) =
     [CHR 0x27] @ c @ [CHR 0x27] @ '' object has no attribute '' @ [CHR 0x27] @ a @ [CHR 0x27]"
| "error_message (InvalidReference a) = ''invalid reference''"

subsection \<open>Standard output\<close>

text \<open>\<^verbatim>\<open>print(s, end=e)\<close> appends \<open>s\<close> and \<open>e\<close>; \<^verbatim>\<open>print(s)\<close> ends the line.\<close>

definition print_end :: "string \<Rightarrow> string \<Rightarrow> world \<Rightarrow> world" where
  "print_end s e w = w\<lparr>stdout := stdout w @ s @ e\<rparr>"

definition print :: "string \<Rightarrow> world \<Rightarrow> world" where
  "print s w = print_end s [CHR 0x0A] w"

subsection \<open>Attribute access\<close>

text \<open>
  \<^verbatim>\<open>self._component1\<close> and \<^verbatim>\<open>self._component2\<close> exist on a \<^verbatim>\<open>ConcreteMediator\<close> only; the
  property \<^verbatim>\<open>mediator\<close> is defined by \<^verbatim>\<open>BaseComponent\<close> and inherited by both components.
\<close>

definition get_component1 :: "addr \<Rightarrow> world \<Rightarrow> error + addr" where
  "get_component1 self w =
     (case lookup w self of
        None \<Rightarrow> Inl (InvalidReference self)
      | Some (ConcreteMediator c1 c2) \<Rightarrow> Inr c1
      | Some ob \<Rightarrow> Inl (AttributeError (class_name ob) ''_component1''))"

definition get_component2 :: "addr \<Rightarrow> world \<Rightarrow> error + addr" where
  "get_component2 self w =
     (case lookup w self of
        None \<Rightarrow> Inl (InvalidReference self)
      | Some (ConcreteMediator c1 c2) \<Rightarrow> Inr c2
      | Some ob \<Rightarrow> Inl (AttributeError (class_name ob) ''_component2''))"

definition get_mediator :: "addr \<Rightarrow> world \<Rightarrow> error + addr option" where
  "get_mediator self w =
     (case lookup w self of
        None \<Rightarrow> Inl (InvalidReference self)
      | Some (BaseComponent m) \<Rightarrow> Inr m
      | Some (Component1 m) \<Rightarrow> Inr m
      | Some (Component2 m) \<Rightarrow> Inr m
      | Some ob \<Rightarrow> Inl (AttributeError (class_name ob) ''mediator''))"

text \<open>
  The setter of the property \<^verbatim>\<open>mediator\<close>. On an object that is not a component Python
  stores a plain instance attribute; no method of the module reads it, and the store of
  the model does not record it.
\<close>

definition set_mediator :: "addr \<Rightarrow> addr option \<Rightarrow> world \<Rightarrow> world \<times> error option" where
  "set_mediator self m w =
     (case lookup w self of
        None \<Rightarrow> (w, Some (InvalidReference self))
      | Some (BaseComponent _) \<Rightarrow> (w\<lparr>heap := (heap w)[self := BaseComponent m]\<rparr>, None)
      | Some (Component1 _) \<Rightarrow> (w\<lparr>heap := (heap w)[self := Component1 m]\<rparr>, None)
      | Some (Component2 _) \<Rightarrow> (w\<lparr>heap := (heap w)[self := Component2 m]\<rparr>, None)
      | Some ob \<Rightarrow> (w, None))"

subsection \<open>Methods\<close>

text \<open>
  \<open>notify m sender event w\<close> is the call \<^verbatim>\<open>m.notify(sender, event)\<close> and \<open>do_a self w\<close> the
  call \<^verbatim>\<open>self.do_a()\<close>: the class of the receiver selects the method, and a receiver
  whose class has no such method raises \<^verbatim>\<open>AttributeError\<close>. \<^verbatim>\<open>Mediator.notify\<close> is
  \<^verbatim>\<open>pass\<close>. The five methods call each other, so they are defined together.
\<close>

function notify :: "addr \<Rightarrow> addr \<Rightarrow> string \<Rightarrow> world \<Rightarrow> outcome"
  and do_a :: "addr \<Rightarrow> world \<Rightarrow> outcome"
  and do_b :: "addr \<Rightarrow> world \<Rightarrow> outcome"
  and do_c :: "addr \<Rightarrow> world \<Rightarrow> outcome"
  and do_d :: "addr \<Rightarrow> world \<Rightarrow> outcome"
where
  "notify self sender event w =
     (case lookup w self of
        None \<Rightarrow> (w, Some (InvalidReference self))
      | Some Mediator \<Rightarrow> (w, None)
      | Some (ConcreteMediator _ _) \<Rightarrow>
          (if event = ''A'' then
             (let w1 = print ''Mediator reacts on A and triggers following operations:'' w in
              case get_component2 self w1 of
                Inl e \<Rightarrow> (w1, Some e)
              | Inr c2 \<Rightarrow> do_c c2 w1)
           else if event = ''D'' then
             (let w1 = print ''Mediator reacts on D and triggers following operations:'' w in
              case get_component1 self w1 of
                Inl e \<Rightarrow> (w1, Some e)
              | Inr c1 \<Rightarrow>
                 (case do_b c1 w1 of
                    (w2, Some e) \<Rightarrow> (w2, Some e)
                  | (w2, None) \<Rightarrow>
                      (case get_component2 self w2 of
                         Inl e \<Rightarrow> (w2, Some e)
                       | Inr c2 \<Rightarrow> do_c c2 w2)))
           else (w, None))
      | Some ob \<Rightarrow> (w, Some (AttributeError (class_name ob) ''notify'')))"
| "do_a self w =
     (case lookup w self of
        None \<Rightarrow> (w, Some (InvalidReference self))
      | Some (Component1 _) \<Rightarrow>
          (let w1 = print ''Component 1 does A.'' w in
           case get_mediator self w1 of
             Inl e \<Rightarrow> (w1, Some e)
           | Inr None \<Rightarrow> (w1, Some (AttributeError ''NoneType'' ''notify''))
           | Inr (Some m) \<Rightarrow> notify m self ''A'' w1)
      | Some ob \<Rightarrow> (w, Some (AttributeError (class_name ob) ''do_a'')))"
| "do_b self w =
     (case lookup w self of
        None \<Rightarrow> (w, Some (InvalidReference self))
      | Some (Component1 _) \<Rightarrow>
          (let w1 = print ''Component 1 does B.'' w in
           case get_mediator self w1 of
             Inl e \<Rightarrow> (w1, Some e)
           | Inr None \<Rightarrow> (w1, Some (AttributeError ''NoneType'' ''notify''))
           | Inr (Some m) \<Rightarrow> notify m self ''B'' w1)
      | Some ob \<Rightarrow> (w, Some (AttributeError (class_name ob) ''do_b'')))"
| "do_c self w =
     (case lookup w self of
        None \<Rightarrow> (w, Some (InvalidReference self))
      | Some (Component2 _) \<Rightarrow>
          (let w1 = print ''Component 2 does C.'' w in
           case get_mediator self w1 of
             Inl e \<Rightarrow> (w1, Some e)
           | Inr None \<Rightarrow> (w1, Some (AttributeError ''NoneType'' ''notify''))
           | Inr (Some m) \<Rightarrow> notify m self ''C'' w1)
      | Some ob \<Rightarrow> (w, Some (AttributeError (class_name ob) ''do_c'')))"
| "do_d self w =
     (case lookup w self of
        None \<Rightarrow> (w, Some (InvalidReference self))
      | Some (Component2 _) \<Rightarrow>
          (let w1 = print ''Component 2 does D.'' w in
           case get_mediator self w1 of
             Inl e \<Rightarrow> (w1, Some e)
           | Inr None \<Rightarrow> (w1, Some (AttributeError ''NoneType'' ''notify''))
           | Inr (Some m) \<Rightarrow> notify m self ''D'' w1)
      | Some ob \<Rightarrow> (w, Some (AttributeError (class_name ob) ''do_d'')))"
  by pat_completeness auto

text \<open>
  A notification reacts only to the labels \<^verbatim>\<open>"A"\<close> and \<^verbatim>\<open>"D"\<close>, and the actions it then
  calls notify with \<^verbatim>\<open>"B"\<close> or \<^verbatim>\<open>"C"\<close>: the call depth is bounded whatever the store holds.
\<close>

termination
  apply (relation "measure (\<lambda>x. case x of
        Inl (Inl (m, s, ev, w)) \<Rightarrow> (if ev = ''A'' \<or> ev = ''D'' then 2 else 0)
      | Inl (Inr _) \<Rightarrow> 3
      | Inr (Inl _) \<Rightarrow> 1
      | Inr (Inr (Inl _)) \<Rightarrow> 1
      | Inr (Inr (Inr _)) \<Rightarrow> 3)")
  apply auto
  done

declare notify.simps [simp del] do_a.simps [simp del] do_b.simps [simp del]
  do_c.simps [simp del] do_d.simps [simp del]

subsection \<open>Constructors\<close>

text \<open>A new object takes the next address of the store.\<close>

definition alloc :: "obj \<Rightarrow> world \<Rightarrow> addr \<times> world" where
  "alloc ob w = (length (heap w), w\<lparr>heap := heap w @ [ob]\<rparr>)"

definition new_Component1 :: "addr option \<Rightarrow> world \<Rightarrow> addr \<times> world" where
  "new_Component1 mediator w = alloc (Component1 mediator) w"

definition new_Component2 :: "addr option \<Rightarrow> world \<Rightarrow> addr \<times> world" where
  "new_Component2 mediator w = alloc (Component2 mediator) w"

text \<open>
  \<^verbatim>\<open>ConcreteMediator(component1, component2)\<close>: the new mediator stores both references and
  assigns itself to the \<^verbatim>\<open>mediator\<close> property of each, component 1 first.
\<close>

definition new_ConcreteMediator :: "addr \<Rightarrow> addr \<Rightarrow> world \<Rightarrow> world \<times> (error + addr)" where
  "new_ConcreteMediator component1 component2 w =
     (let (self, w1) = alloc (ConcreteMediator component1 component2) w in
      case set_mediator component1 (Some self) w1 of
        (w2, Some e) \<Rightarrow> (w2, Inl e)
      | (w2, None) \<Rightarrow>
          (case set_mediator component2 (Some self) w2 of
             (w3, Some e) \<Rightarrow> (w3, Inl e)
           | (w3, None) \<Rightarrow> (w3, Inr self)))"

subsection \<open>The script\<close>

text \<open>
  The body under \<^verbatim>\<open>if __name__ == "__main__"\<close>. It reads neither the command line nor
  the environment; \<open>argv\<close> is what the process was started with. An uncaught exception
  ends the script where it is raised.
\<close>

definition main :: "string list \<Rightarrow> world \<Rightarrow> outcome" where
  "main argv w0 =
     (let (c1, w1) = new_Component1 None w0;
          (c2, w2) = new_Component2 None w1
      in case new_ConcreteMediator c1 c2 w2 of
           (w3, Inl e) \<Rightarrow> (w3, Some e)
         | (w3, Inr mediator) \<Rightarrow>
             (case do_a c1 (print ''Client triggers operation A.'' w3) of
                (w4, Some e) \<Rightarrow> (w4, Some e)
              | (w4, None) \<Rightarrow>
                  do_d c2 (print ''Client triggers operation D.''
                            (print_end [CHR 0x0A] [] w4))))"

text \<open>The interpreter exits with 0 when the script ends normally and with 1 on an
  uncaught exception.\<close>

definition exit_code :: "outcome \<Rightarrow> nat" where
  "exit_code r = (case snd r of None \<Rightarrow> 0 | Some e \<Rightarrow> 1)"

definition initial_world :: world where
  "initial_world = \<lparr>heap = [], stdout = []\<rparr>"

subsection \<open>Predicates used by the properties\<close>

text \<open>
  \<open>extends w w'\<close>: \<open>w'\<close> has the store of \<open>w\<close> and its output continues the output
  of \<open>w\<close>.
\<close>

definition extends :: "world \<Rightarrow> world \<Rightarrow> bool" where
  "extends w w' = (heap w' = heap w \<and> prefix (stdout w) (stdout w'))"

text \<open>
  \<open>attached_graph w c1 c2 m\<close>: in \<open>w\<close>, \<open>m\<close> is a concrete mediator bound to the
  \<^verbatim>\<open>Component1\<close> at \<open>c1\<close> and the \<^verbatim>\<open>Component2\<close> at \<open>c2\<close>, and both refer back to \<open>m\<close>.
\<close>

definition attached_graph :: "world \<Rightarrow> addr \<Rightarrow> addr \<Rightarrow> addr \<Rightarrow> bool" where
  "attached_graph w c1 c2 m =
     (lookup w c1 = Some (Component1 (Some m)) \<and>
      lookup w c2 = Some (Component2 (Some m)) \<and>
      lookup w m = Some (ConcreteMediator c1 c2))"

text \<open>The graph the script builds, on an empty output.\<close>

definition demo_graph :: world where
  "demo_graph =
     \<lparr>heap = [Component1 (Some 2), Component2 (Some 2), ConcreteMediator 0 1], stdout = []\<rparr>"

text \<open>What was written to the output between \<open>w\<close> and a later world \<open>w'\<close>.\<close>

definition output_since :: "world \<Rightarrow> world \<Rightarrow> string" where
  "output_since w w' = drop (length (stdout w)) (stdout w')"

text \<open>
  Following the specification's words, not the code: section 7 asks for an explicit
  error that names the condition, "component not attached to a mediator".
\<close>

definition spec_not_attached_error :: "error \<Rightarrow> bool" where
  "spec_not_attached_error e = (error_message e = ''component not attached to a mediator'')"

text \<open>Two components as \<^verbatim>\<open>Component1()\<close> and \<^verbatim>\<open>Component2()\<close> create them, before any
  mediator exists.\<close>

definition unattached_world :: world where
  "unattached_world = \<lparr>heap = [Component1 None, Component2 None], stdout = []\<rparr>"

text \<open>Two graphs built one after the other in the same store.\<close>

definition two_graphs :: world where
  "two_graphs =
     \<lparr>heap = [Component1 (Some 2), Component2 (Some 2), ConcreteMediator 0 1,
              Component1 (Some 5), Component2 (Some 5), ConcreteMediator 3 4],
      stdout = []\<rparr>"

text \<open>
  A client's calls into the graph: any of the four actions on any object, or a
  notification sent to any object. A sequence of calls runs until one raises.
\<close>

datatype call = Do_a addr | Do_b addr | Do_c addr | Do_d addr | Notify addr addr string

fun invoke :: "call \<Rightarrow> world \<Rightarrow> outcome" where
  "invoke (Do_a c) w = do_a c w"
| "invoke (Do_b c) w = do_b c w"
| "invoke (Do_c c) w = do_c c w"
| "invoke (Do_d c) w = do_d c w"
| "invoke (Notify m sender event) w = notify m sender event w"

fun invoke_all :: "call list \<Rightarrow> world \<Rightarrow> outcome" where
  "invoke_all [] w = (w, None)"
| "invoke_all (c # cs) w =
     (case invoke c w of
        (w', Some e) \<Rightarrow> (w', Some e)
      | (w', None) \<Rightarrow> invoke_all cs w')"

section \<open>Properties\<close>

subsection \<open>Output and store of a call\<close>

lemma lookup_print_end [simp]: "lookup (print_end s e w) a = lookup w a"
  by (simp add: lookup_def print_end_def)

lemma lookup_print [simp]: "lookup (print s w) a = lookup w a"
  by (simp add: print_def)

lemma heap_print [simp]: "heap (print s w) = heap w"
  by (simp add: print_def print_end_def)

lemma stdout_print [simp]: "stdout (print s w) = stdout w @ s @ [CHR 0x0A]"
  by (simp add: print_def print_end_def)

lemma get_mediator_print [simp]: "get_mediator a (print s w) = get_mediator a w"
  by (simp add: get_mediator_def)

lemma get_component1_print [simp]: "get_component1 a (print s w) = get_component1 a w"
  by (simp add: get_component1_def)

lemma get_component2_print [simp]: "get_component2 a (print s w) = get_component2 a w"
  by (simp add: get_component2_def)

lemma notify_no_reaction:
  "lookup w m = Some (ConcreteMediator c1 c2) \<Longrightarrow> event \<noteq> ''A'' \<Longrightarrow> event \<noteq> ''D''
   \<Longrightarrow> notify m sender event w = (w, None)"
  by (simp add: notify.simps)

lemma notify_A:
  "lookup w m = Some (ConcreteMediator c1 c2) \<Longrightarrow>
   notify m sender ''A'' w =
     do_c c2 (print ''Mediator reacts on A and triggers following operations:'' w)"
  by (simp add: notify.simps get_component2_def)

lemma extends_refl [simp]: "extends w w"
  by (simp add: extends_def)

lemma extends_print [simp]: "extends w (print s w)"
  by (simp add: extends_def)

lemma extends_trans: "extends w w' \<Longrightarrow> extends w' w'' \<Longrightarrow> extends w w''"
  by (auto simp: extends_def)

lemma extends_notify_leaf:
  "event \<noteq> ''A'' \<Longrightarrow> event \<noteq> ''D'' \<Longrightarrow> extends w (fst (notify m sender event w))"
  by (simp add: notify.simps split: option.splits obj.splits)

lemma get_mediator_Component1 [simp]:
  "lookup w a = Some (Component1 m) \<Longrightarrow> get_mediator a w = Inr m"
  by (simp add: get_mediator_def)

lemma get_mediator_Component2 [simp]:
  "lookup w a = Some (Component2 m) \<Longrightarrow> get_mediator a w = Inr m"
  by (simp add: get_mediator_def)

lemma extends_do_b: "extends w (fst (do_b a w))"
  by (auto simp: do_b.simps Let_def split: option.splits obj.splits
      intro: extends_trans [OF extends_print extends_notify_leaf])

lemma extends_do_c: "extends w (fst (do_c a w))"
  by (auto simp: do_c.simps Let_def split: option.splits obj.splits
      intro: extends_trans [OF extends_print extends_notify_leaf])

lemma extends_notify: "extends w (fst (notify m sender event w))"
proof (cases "lookup w m")
  case None
  then show ?thesis by (simp add: notify.simps)
next
  case (Some ob)
  show ?thesis
  proof (cases ob)
    case (ConcreteMediator c1 c2)
    let ?wA = "print ''Mediator reacts on A and triggers following operations:'' w"
    let ?wD = "print ''Mediator reacts on D and triggers following operations:'' w"
    have A: "extends w (fst (do_c c2 ?wA))"
      by (rule extends_trans [OF extends_print extends_do_c])
    have B: "extends w (fst (do_b c1 ?wD))"
      by (rule extends_trans [OF extends_print extends_do_b])
    have C: "extends w (fst (do_c c2 (fst (do_b c1 ?wD))))"
      by (rule extends_trans [OF B extends_do_c])
    have L: "lookup (fst (do_b c1 ?wD)) m = lookup w m"
      using B by (simp add: extends_def lookup_def)
    show ?thesis
      using Some ConcreteMediator A B C L
      by (auto simp: notify.simps Let_def get_component1_def get_component2_def
          split: prod.splits option.splits)
  qed (use Some in \<open>simp_all add: notify.simps\<close>)
qed

lemma extends_do_a: "extends w (fst (do_a a w))"
  by (auto simp: do_a.simps Let_def split: option.splits obj.splits
      intro: extends_trans [OF extends_print extends_notify])

lemma extends_do_d: "extends w (fst (do_d a w))"
  by (auto simp: do_d.simps Let_def split: option.splits obj.splits
      intro: extends_trans [OF extends_print extends_notify])

lemma lookup_after_extends: "extends w w' \<Longrightarrow> lookup w' a = lookup w a"
  by (simp add: extends_def lookup_def)

lemma notify_D:
  assumes "lookup w m = Some (ConcreteMediator c1 c2)"
  shows "notify m sender ''D'' w =
     (case do_b c1 (print ''Mediator reacts on D and triggers following operations:'' w) of
        (w2, Some e) \<Rightarrow> (w2, Some e)
      | (w2, None) \<Rightarrow> do_c c2 w2)"
proof -
  let ?w1 = "print ''Mediator reacts on D and triggers following operations:'' w"
  have "lookup (fst (do_b c1 ?w1)) m = Some (ConcreteMediator c1 c2)"
    using assms lookup_after_extends [OF extends_do_b, of c1 ?w1 m] by simp
  then have "get_component2 m (fst (do_b c1 ?w1)) = Inr c2"
    by (simp add: get_component2_def)
  then show ?thesis
    using assms
    by (auto simp: notify.simps Let_def get_component1_def split: prod.splits option.splits)
qed

text \<open>
  Claim C1. \<^verbatim>\<open>ConcreteMediator.notify\<close> is the fixed dispatch table: on \<^verbatim>\<open>"A"\<close> it prints
  its banner and calls \<^verbatim>\<open>do_c\<close> on component 2; on \<^verbatim>\<open>"D"\<close> it prints its banner, calls
  \<^verbatim>\<open>do_b\<close> on component 1 and then, in the world that call left, \<^verbatim>\<open>do_c\<close> on component 2
  (an exception of \<^verbatim>\<open>do_b\<close> propagates); on every other label it returns at once with
  the world unchanged.
\<close>

theorem notify_dispatch_table:
  assumes "lookup w m = Some (ConcreteMediator c1 c2)"
  shows "notify m sender ''A'' w =
           do_c c2 (print ''Mediator reacts on A and triggers following operations:'' w)
       \<and> notify m sender ''D'' w =
           (case do_b c1 (print ''Mediator reacts on D and triggers following operations:'' w) of
              (w2, Some e) \<Rightarrow> (w2, Some e)
            | (w2, None) \<Rightarrow> do_c c2 w2)
       \<and> (event \<noteq> ''A'' \<and> event \<noteq> ''D'' \<longrightarrow> notify m sender event w = (w, None))"
  using assms notify_A [OF assms] notify_D [OF assms] notify_no_reaction [OF assms]
  by blast

lemma do_b_attached:
  "attached_graph w c1 c2 m \<Longrightarrow> do_b c1 w = (print ''Component 1 does B.'' w, None)"
  by (simp add: attached_graph_def do_b.simps Let_def notify_no_reaction)

lemma do_c_attached:
  "attached_graph w c1 c2 m \<Longrightarrow> do_c c2 w = (print ''Component 2 does C.'' w, None)"
  by (simp add: attached_graph_def do_c.simps Let_def notify_no_reaction)

lemma attached_graph_print [simp]:
  "attached_graph (print s w) c1 c2 m = attached_graph w c1 c2 m"
  by (simp add: attached_graph_def)

lemma do_a_attached:
  assumes g: "attached_graph w c1 c2 m"
  shows "do_a c1 w =
     (print ''Component 2 does C.''
       (print ''Mediator reacts on A and triggers following operations:''
         (print ''Component 1 does A.'' w)), None)"
proof -
  let ?w1 = "print ''Component 1 does A.'' w"
  let ?w2 = "print ''Mediator reacts on A and triggers following operations:'' ?w1"
  have c1: "lookup w c1 = Some (Component1 (Some m))"
    and m: "lookup ?w1 m = Some (ConcreteMediator c1 c2)"
    using g by (simp_all add: attached_graph_def)
  have "do_a c1 w = notify m c1 ''A'' ?w1"
    using c1 by (simp add: do_a.simps Let_def)
  also have "\<dots> = do_c c2 ?w2"
    by (rule notify_A [OF m])
  also have "\<dots> = (print ''Component 2 does C.'' ?w2, None)"
    by (rule do_c_attached [where ?c1.0 = c1 and m = m]) (simp add: g)
  finally show ?thesis .
qed

lemma do_d_attached:
  assumes g: "attached_graph w c1 c2 m"
  shows "do_d c2 w =
     (print ''Component 2 does C.''
       (print ''Component 1 does B.''
         (print ''Mediator reacts on D and triggers following operations:''
           (print ''Component 2 does D.'' w))), None)"
proof -
  let ?w1 = "print ''Component 2 does D.'' w"
  let ?w2 = "print ''Mediator reacts on D and triggers following operations:'' ?w1"
  let ?w3 = "print ''Component 1 does B.'' ?w2"
  have c2: "lookup w c2 = Some (Component2 (Some m))"
    and m: "lookup ?w1 m = Some (ConcreteMediator c1 c2)"
    using g by (simp_all add: attached_graph_def)
  have b: "do_b c1 ?w2 = (?w3, None)"
    by (rule do_b_attached [where ?c2.0 = c2 and m = m]) (simp add: g)
  have c: "do_c c2 ?w3 = (print ''Component 2 does C.'' ?w3, None)"
    by (rule do_c_attached [where ?c1.0 = c1 and m = m]) (simp add: g)
  have "do_d c2 w = notify m c2 ''D'' ?w1"
    using c2 by (simp add: do_d.simps Let_def)
  also have "\<dots> = (print ''Component 2 does C.'' ?w3, None)"
    by (simp add: notify_D [OF m] b c)
  finally show ?thesis .
qed

lemma attached_demo_graph: "attached_graph demo_graph 0 1 2"
  by (simp add: attached_graph_def demo_graph_def lookup_def)

theorem notify_dispatch_table_witness:
  "lookup demo_graph 2 = Some (ConcreteMediator 0 1)
   \<and> notify 2 0 ''A'' demo_graph =
       do_c 1 (print ''Mediator reacts on A and triggers following operations:'' demo_graph)
   \<and> notify 2 0 ''D'' demo_graph =
       (case do_b 0 (print ''Mediator reacts on D and triggers following operations:'' demo_graph) of
          (w2, Some e) \<Rightarrow> (w2, Some e)
        | (w2, None) \<Rightarrow> do_c 1 w2)
   \<and> ''B'' \<noteq> ''A'' \<and> ''B'' \<noteq> ''D'' \<and> notify 2 0 ''B'' demo_graph = (demo_graph, None)"
proof -
  have h: "lookup demo_graph 2 = Some (ConcreteMediator 0 1)"
    by (simp add: demo_graph_def lookup_def)
  show ?thesis
    using h notify_dispatch_table [OF h, of 0 "''B''"] by simp
qed

text \<open>
  Claim C3. On an attached graph, \<^verbatim>\<open>do_d\<close> on component 2 ends normally and appends
  exactly four lines to the output, in this order: component 2's line for D, the
  mediator's banner for D, component 1's line for B, component 2's line for C. Nothing
  else of the world changes.
\<close>

theorem do_d_four_effects:
  assumes "attached_graph w c1 c2 m"
  shows "do_d c2 w =
     (w\<lparr>stdout := stdout w
          @ ''Component 2 does D.'' @ [CHR 0x0A]
          @ ''Mediator reacts on D and triggers following operations:'' @ [CHR 0x0A]
          @ ''Component 1 does B.'' @ [CHR 0x0A]
          @ ''Component 2 does C.'' @ [CHR 0x0A]\<rparr>, None)"
  by (simp add: do_d_attached [OF assms] print_def print_end_def)

theorem do_d_four_effects_witness:
  "attached_graph demo_graph 0 1 2 \<and>
   do_d 1 demo_graph =
     (demo_graph\<lparr>stdout := stdout demo_graph
          @ ''Component 2 does D.'' @ [CHR 0x0A]
          @ ''Mediator reacts on D and triggers following operations:'' @ [CHR 0x0A]
          @ ''Component 1 does B.'' @ [CHR 0x0A]
          @ ''Component 2 does C.'' @ [CHR 0x0A]\<rparr>, None)"
  using do_d_four_effects [OF attached_demo_graph] attached_demo_graph by simp

text \<open>
  Claim C4. On an attached graph, \<^verbatim>\<open>do_a\<close> on component 1 ends normally and appends
  exactly three lines to the output, in this order: component 1's line for A, the
  mediator's banner for A, component 2's line for C. Nothing else of the world changes.
\<close>

theorem do_a_three_effects:
  assumes "attached_graph w c1 c2 m"
  shows "do_a c1 w =
     (w\<lparr>stdout := stdout w
          @ ''Component 1 does A.'' @ [CHR 0x0A]
          @ ''Mediator reacts on A and triggers following operations:'' @ [CHR 0x0A]
          @ ''Component 2 does C.'' @ [CHR 0x0A]\<rparr>, None)"
  by (simp add: do_a_attached [OF assms] print_def print_end_def)

theorem do_a_three_effects_witness:
  "attached_graph demo_graph 0 1 2 \<and>
   do_a 0 demo_graph =
     (demo_graph\<lparr>stdout := stdout demo_graph
          @ ''Component 1 does A.'' @ [CHR 0x0A]
          @ ''Mediator reacts on A and triggers following operations:'' @ [CHR 0x0A]
          @ ''Component 2 does C.'' @ [CHR 0x0A]\<rparr>, None)"
  using do_a_three_effects [OF attached_demo_graph] attached_demo_graph by simp

text \<open>
  Claim C8. The reaction of \<^verbatim>\<open>notify\<close> depends on the event label only: two calls that
  differ in the sender alone have the same outcome, whatever the receiver is.
\<close>

theorem notify_ignores_sender:
  "notify m sender1 event w = notify m sender2 event w"
  by (simp add: notify.simps)

subsection \<open>Order of effect and notification\<close>

text \<open>
  Claim C2. Each of the four actions, called on a component that has a mediator
  reference, is the notification sent from the world in which the component's own line
  is already written; hence the world the action returns extends that world: the line
  precedes every output of the notification and of the reaction, and the store is the
  same.
\<close>

theorem effect_before_notification:
  "(lookup w c = Some (Component1 (Some m)) \<longrightarrow>
      do_a c w = notify m c ''A'' (print ''Component 1 does A.'' w)
    \<and> extends (print ''Component 1 does A.'' w) (fst (do_a c w))
    \<and> do_b c w = notify m c ''B'' (print ''Component 1 does B.'' w)
    \<and> extends (print ''Component 1 does B.'' w) (fst (do_b c w)))
 \<and> (lookup w c = Some (Component2 (Some m)) \<longrightarrow>
      do_c c w = notify m c ''C'' (print ''Component 2 does C.'' w)
    \<and> extends (print ''Component 2 does C.'' w) (fst (do_c c w))
    \<and> do_d c w = notify m c ''D'' (print ''Component 2 does D.'' w)
    \<and> extends (print ''Component 2 does D.'' w) (fst (do_d c w)))"
proof (intro conjI impI)
  assume c: "lookup w c = Some (Component1 (Some m))"
  show a: "do_a c w = notify m c ''A'' (print ''Component 1 does A.'' w)"
    using c by (simp add: do_a.simps Let_def)
  show b: "do_b c w = notify m c ''B'' (print ''Component 1 does B.'' w)"
    using c by (simp add: do_b.simps Let_def)
  show "extends (print ''Component 1 does A.'' w) (fst (do_a c w))"
    unfolding a by (rule extends_notify)
  show "extends (print ''Component 1 does B.'' w) (fst (do_b c w))"
    unfolding b by (rule extends_notify)
next
  assume c: "lookup w c = Some (Component2 (Some m))"
  show a: "do_c c w = notify m c ''C'' (print ''Component 2 does C.'' w)"
    using c by (simp add: do_c.simps Let_def)
  show b: "do_d c w = notify m c ''D'' (print ''Component 2 does D.'' w)"
    using c by (simp add: do_d.simps Let_def)
  show "extends (print ''Component 2 does C.'' w) (fst (do_c c w))"
    unfolding a by (rule extends_notify)
  show "extends (print ''Component 2 does D.'' w) (fst (do_d c w))"
    unfolding b by (rule extends_notify)
qed

lemma lookup_demo_graph:
  "lookup demo_graph 0 = Some (Component1 (Some 2))"
  "lookup demo_graph 1 = Some (Component2 (Some 2))"
  "lookup demo_graph 2 = Some (ConcreteMediator 0 1)"
  by (simp_all add: demo_graph_def lookup_def)

theorem effect_before_notification_witness:
  "lookup demo_graph 0 = Some (Component1 (Some 2))
   \<and> do_a 0 demo_graph = notify 2 0 ''A'' (print ''Component 1 does A.'' demo_graph)
   \<and> extends (print ''Component 1 does A.'' demo_graph) (fst (do_a 0 demo_graph))
   \<and> do_b 0 demo_graph = notify 2 0 ''B'' (print ''Component 1 does B.'' demo_graph)
   \<and> extends (print ''Component 1 does B.'' demo_graph) (fst (do_b 0 demo_graph))
   \<and> lookup demo_graph 1 = Some (Component2 (Some 2))
   \<and> do_c 1 demo_graph = notify 2 1 ''C'' (print ''Component 2 does C.'' demo_graph)
   \<and> extends (print ''Component 2 does C.'' demo_graph) (fst (do_c 1 demo_graph))
   \<and> do_d 1 demo_graph = notify 2 1 ''D'' (print ''Component 2 does D.'' demo_graph)
   \<and> extends (print ''Component 2 does D.'' demo_graph) (fst (do_d 1 demo_graph))"
  using effect_before_notification [of demo_graph 0 2]
    effect_before_notification [of demo_graph 1 2] lookup_demo_graph
  by blast

subsection \<open>A component without a mediator\<close>

text \<open>
  Claim C5, as amended. On a component whose mediator reference is \<^verbatim>\<open>None\<close>, each action
  writes the component's own line and then raises Python's \<^verbatim>\<open>AttributeError\<close> for the
  attribute \<^verbatim>\<open>notify\<close> of \<^verbatim>\<open>None\<close>; nothing else is written and the store is unchanged.
\<close>

theorem unattached_action_raises_AttributeError:
  "(lookup w c = Some (Component1 None) \<longrightarrow>
      do_a c w = (print ''Component 1 does A.'' w, Some (AttributeError ''NoneType'' ''notify''))
    \<and> do_b c w = (print ''Component 1 does B.'' w, Some (AttributeError ''NoneType'' ''notify'')))
 \<and> (lookup w c = Some (Component2 None) \<longrightarrow>
      do_c c w = (print ''Component 2 does C.'' w, Some (AttributeError ''NoneType'' ''notify''))
    \<and> do_d c w = (print ''Component 2 does D.'' w, Some (AttributeError ''NoneType'' ''notify'')))"
  by (simp add: do_a.simps do_b.simps do_c.simps do_d.simps Let_def)

lemma lookup_unattached_world:
  "lookup unattached_world 0 = Some (Component1 None)"
  "lookup unattached_world (Suc 0) = Some (Component2 None)"
  by (simp_all add: unattached_world_def lookup_def)

theorem unattached_action_raises_AttributeError_witness:
  "lookup unattached_world 0 = Some (Component1 None)
   \<and> do_a 0 unattached_world =
       (print ''Component 1 does A.'' unattached_world, Some (AttributeError ''NoneType'' ''notify''))
   \<and> do_b 0 unattached_world =
       (print ''Component 1 does B.'' unattached_world, Some (AttributeError ''NoneType'' ''notify''))
   \<and> lookup unattached_world 1 = Some (Component2 None)
   \<and> do_c 1 unattached_world =
       (print ''Component 2 does C.'' unattached_world, Some (AttributeError ''NoneType'' ''notify''))
   \<and> do_d 1 unattached_world =
       (print ''Component 2 does D.'' unattached_world, Some (AttributeError ''NoneType'' ''notify''))"
  using unattached_action_raises_AttributeError [of unattached_world 0]
    unattached_action_raises_AttributeError [of unattached_world 1]
  by (simp add: lookup_unattached_world)

text \<open>
  The claim as stated fails: the exception raised by \<^verbatim>\<open>do_a\<close> on an unattached
  \<^verbatim>\<open>Component1\<close> is the interpreter's \<^verbatim>\<open>AttributeError\<close> for \<^verbatim>\<open>None\<close>, not an error that
  names the condition.
\<close>

theorem unattached_error_not_named_counterexample:
  "lookup unattached_world 0 = Some (Component1 None)
   \<and> snd (do_a 0 unattached_world) = Some (AttributeError ''NoneType'' ''notify'')
   \<and> \<not> spec_not_attached_error (AttributeError ''NoneType'' ''notify'')"
  by (simp add: lookup_unattached_world do_a.simps Let_def spec_not_attached_error_def)

subsection \<open>Construction of the mediator\<close>

lemma lookup_alloc:
  "lookup (snd (alloc ob w)) a =
     (if a = length (heap w) then Some ob else lookup w a)"
  by (auto simp: alloc_def lookup_def nth_append)

lemma lookup_update:
  "lookup (w\<lparr>heap := (heap w)[a := ob]\<rparr>) b =
     (if b = a \<and> a < length (heap w) then Some ob else lookup w b)"
  by (auto simp: lookup_def)

lemma lookup_Some_less: "lookup w a = Some ob \<Longrightarrow> a < length (heap w)"
  by (simp add: lookup_def split: if_splits)

lemma set_mediator_Component1:
  "lookup w a = Some (Component1 x) \<Longrightarrow>
   set_mediator a m w = (w\<lparr>heap := (heap w)[a := Component1 m]\<rparr>, None)"
  by (simp add: set_mediator_def)

lemma set_mediator_Component2:
  "lookup w a = Some (Component2 x) \<Longrightarrow>
   set_mediator a m w = (w\<lparr>heap := (heap w)[a := Component2 m]\<rparr>, None)"
  by (simp add: set_mediator_def)

text \<open>
  Claim C6. Constructing a \<^verbatim>\<open>ConcreteMediator\<close> on an existing \<^verbatim>\<open>Component1\<close> and an
  existing \<^verbatim>\<open>Component2\<close> succeeds and returns a new object that holds both references,
  while the mediator reference of each component is that new object. The output is
  untouched.
\<close>

theorem ConcreteMediator_binds_both:
  assumes c1: "lookup w c1 = Some (Component1 x)"
    and c2: "lookup w c2 = Some (Component2 y)"
  shows "snd (new_ConcreteMediator c1 c2 w) = Inr (length (heap w))
       \<and> attached_graph (fst (new_ConcreteMediator c1 c2 w)) c1 c2 (length (heap w))
       \<and> stdout (fst (new_ConcreteMediator c1 c2 w)) = stdout w"
proof -
  define m where "m = length (heap w)"
  define w1 where "w1 = snd (alloc (ConcreteMediator c1 c2) w)"
  define w2 where "w2 = w1\<lparr>heap := (heap w1)[c1 := Component1 (Some m)]\<rparr>"
  define w3 where "w3 = w2\<lparr>heap := (heap w2)[c2 := Component2 (Some m)]\<rparr>"
  have l1: "c1 < m" and l2: "c2 < m"
    using c1 c2 by (auto simp: m_def dest: lookup_Some_less)
  have ne: "c1 \<noteq> c2"
    using c1 c2 by auto
  have a: "alloc (ConcreteMediator c1 c2) w = (m, w1)"
    by (simp add: alloc_def m_def w1_def)
  have len1: "length (heap w1) = Suc m"
    by (simp add: w1_def alloc_def m_def)
  have k1: "lookup w1 a = (if a = m then Some (ConcreteMediator c1 c2) else lookup w a)" for a
    by (simp add: w1_def lookup_alloc m_def)
  have k2: "lookup w2 a = (if a = c1 then Some (Component1 (Some m)) else lookup w1 a)" for a
    using l1 by (simp add: w2_def lookup_update len1)
  have len2: "length (heap w2) = Suc m"
    by (simp add: w2_def len1)
  have k3: "lookup w3 a = (if a = c2 then Some (Component2 (Some m)) else lookup w2 a)" for a
    using l2 by (simp add: w3_def lookup_update len2)
  have s1: "set_mediator c1 (Some m) w1 = (w2, None)"
    unfolding w2_def using c1 l1 by (intro set_mediator_Component1 [where x = x]) (simp add: k1)
  have s2: "set_mediator c2 (Some m) w2 = (w3, None)"
    unfolding w3_def using c2 l2 ne
    by (intro set_mediator_Component2 [where x = y]) (simp add: k1 k2)
  have r: "new_ConcreteMediator c1 c2 w = (w3, Inr m)"
    by (simp add: new_ConcreteMediator_def a s1 s2)
  have g: "attached_graph w3 c1 c2 m"
    using l1 l2 ne by (simp add: attached_graph_def k1 k2 k3)
  have out: "stdout w3 = stdout w"
    by (simp add: w3_def w2_def w1_def alloc_def)
  show ?thesis
    using r g out by (simp add: m_def)
qed

theorem ConcreteMediator_binds_both_witness:
  "lookup unattached_world 0 = Some (Component1 None)
   \<and> lookup unattached_world 1 = Some (Component2 None)
   \<and> new_ConcreteMediator 0 1 unattached_world = (demo_graph, Inr 2)
   \<and> attached_graph demo_graph 0 1 2"
proof -
  have h1: "lookup unattached_world 0 = Some (Component1 None)"
    and h2: "lookup unattached_world 1 = Some (Component2 None)"
    by (simp_all add: unattached_world_def lookup_def)
  have r: "new_ConcreteMediator 0 1 unattached_world = (demo_graph, Inr 2)"
    by (simp add: new_ConcreteMediator_def alloc_def set_mediator_def lookup_def
        unattached_world_def demo_graph_def)
  have len: "length (heap unattached_world) = 2"
    by (simp add: unattached_world_def)
  show ?thesis
    using h1 h2 r ConcreteMediator_binds_both [OF h1 h2] by (simp add: len)
qed

subsection \<open>Independent graphs\<close>

lemma output_since_print [simp]:
  "output_since w (print s w) = s @ [CHR 0x0A]"
  by (simp add: output_since_def)

lemma output_since_print2:
  "output_since w (print s2 (print s1 w)) = s1 @ [CHR 0x0A] @ s2 @ [CHR 0x0A]"
  "output_since w (print s3 (print s2 (print s1 w))) =
     s1 @ [CHR 0x0A] @ s2 @ [CHR 0x0A] @ s3 @ [CHR 0x0A]"
  "output_since w (print s4 (print s3 (print s2 (print s1 w)))) =
     s1 @ [CHR 0x0A] @ s2 @ [CHR 0x0A] @ s3 @ [CHR 0x0A] @ s4 @ [CHR 0x0A]"
  by (simp_all add: output_since_def)

text \<open>
  Claim C7. Let \<open>c1\<close>, \<open>c2\<close>, \<open>m\<close> be an attached graph in two worlds \<open>w\<close> and \<open>w'\<close> that
  may differ in everything else, in particular in the objects of any other graph. Each
  action on \<open>c1\<close> or \<open>c2\<close> raises the same (nothing) and writes the same in both worlds,
  so no call reaches an object outside the graph: such a call would make the outcome
  depend on that object. The store is left as it was, so the objects of the other graph
  are unaffected.
\<close>

theorem independent_graphs_do_not_interfere:
  assumes g: "attached_graph w c1 c2 m" and g': "attached_graph w' c1 c2 m"
  shows "snd (do_a c1 w) = snd (do_a c1 w')
       \<and> output_since w (fst (do_a c1 w)) = output_since w' (fst (do_a c1 w'))
       \<and> heap (fst (do_a c1 w)) = heap w
       \<and> snd (do_b c1 w) = snd (do_b c1 w')
       \<and> output_since w (fst (do_b c1 w)) = output_since w' (fst (do_b c1 w'))
       \<and> heap (fst (do_b c1 w)) = heap w
       \<and> snd (do_c c2 w) = snd (do_c c2 w')
       \<and> output_since w (fst (do_c c2 w)) = output_since w' (fst (do_c c2 w'))
       \<and> heap (fst (do_c c2 w)) = heap w
       \<and> snd (do_d c2 w) = snd (do_d c2 w')
       \<and> output_since w (fst (do_d c2 w)) = output_since w' (fst (do_d c2 w'))
       \<and> heap (fst (do_d c2 w)) = heap w"
  by (simp add: do_a_attached [OF g] do_a_attached [OF g'] do_b_attached [OF g]
      do_b_attached [OF g'] do_c_attached [OF g] do_c_attached [OF g']
      do_d_attached [OF g] do_d_attached [OF g'] output_since_print2)


lemma two_graphs_constructed:
  "(let (c1, w1) = new_Component1 None initial_world;
        (c2, w2) = new_Component2 None w1;
        (w3, m) = new_ConcreteMediator c1 c2 w2;
        (c1', w4) = new_Component1 None w3;
        (c2', w5) = new_Component2 None w4
    in fst (new_ConcreteMediator c1' c2' w5)) = two_graphs"
  by (simp add: initial_world_def new_Component1_def new_Component2_def alloc_def
      new_ConcreteMediator_def set_mediator_def lookup_def two_graphs_def)

lemma attached_two_graphs:
  "attached_graph two_graphs 0 1 2" "attached_graph two_graphs 3 4 5"
  by (simp_all add: attached_graph_def two_graphs_def lookup_def)

theorem independent_graphs_do_not_interfere_witness:
  "attached_graph two_graphs 0 1 2 \<and> attached_graph demo_graph 0 1 2
   \<and> snd (do_a 0 two_graphs) = snd (do_a 0 demo_graph)
   \<and> output_since two_graphs (fst (do_a 0 two_graphs))
       = output_since demo_graph (fst (do_a 0 demo_graph))
   \<and> heap (fst (do_a 0 two_graphs)) = heap two_graphs
   \<and> snd (do_d 1 two_graphs) = snd (do_d 1 demo_graph)
   \<and> output_since two_graphs (fst (do_d 1 two_graphs))
       = output_since demo_graph (fst (do_d 1 demo_graph))
   \<and> heap (fst (do_d 1 two_graphs)) = heap two_graphs"
  using independent_graphs_do_not_interfere [OF attached_two_graphs(1) attached_demo_graph]
    attached_two_graphs(1) attached_demo_graph
  by blast

subsection \<open>The script\<close>

lemma new_ConcreteMediator_fresh:
  "new_ConcreteMediator (length (heap w0)) (Suc (length (heap w0)))
     (w0\<lparr>heap := heap w0 @ [Component1 None, Component2 None]\<rparr>) =
   (w0\<lparr>heap := heap w0 @ [Component1 (Some (Suc (Suc (length (heap w0))))),
                           Component2 (Some (Suc (Suc (length (heap w0))))),
                           ConcreteMediator (length (heap w0)) (Suc (length (heap w0)))]\<rparr>,
    Inr (Suc (Suc (length (heap w0)))))"
  by (simp add: new_ConcreteMediator_def alloc_def set_mediator_def lookup_def nth_append
      list_update_append)

text \<open>
  Claim C9. Whatever the command line and the world it starts in, the script creates
  component 1, component 2 and a mediator bound to both at the next three addresses,
  then runs action A on component 1 and action D on component 2: it writes exactly the
  ten lines below, raises nothing, and the process exits with code 0.
\<close>

theorem main_runs_fixed_script:
  "main argv w0 =
     (w0\<lparr>heap := heap w0 @ [Component1 (Some (length (heap w0) + 2)),
                             Component2 (Some (length (heap w0) + 2)),
                             ConcreteMediator (length (heap w0)) (length (heap w0) + 1)],
         stdout := stdout w0
           @ ''Client triggers operation A.'' @ [CHR 0x0A]
           @ ''Component 1 does A.'' @ [CHR 0x0A]
           @ ''Mediator reacts on A and triggers following operations:'' @ [CHR 0x0A]
           @ ''Component 2 does C.'' @ [CHR 0x0A]
           @ [CHR 0x0A]
           @ ''Client triggers operation D.'' @ [CHR 0x0A]
           @ ''Component 2 does D.'' @ [CHR 0x0A]
           @ ''Mediator reacts on D and triggers following operations:'' @ [CHR 0x0A]
           @ ''Component 1 does B.'' @ [CHR 0x0A]
           @ ''Component 2 does C.'' @ [CHR 0x0A]\<rparr>, None)
   \<and> exit_code (main argv w0) = 0"
proof -
  define n where "n = length (heap w0)"
  define g where "g = w0\<lparr>heap := heap w0 @ [Component1 (Some (Suc (Suc n))),
      Component2 (Some (Suc (Suc n))), ConcreteMediator n (Suc n)]\<rparr>"
  have build: "new_ConcreteMediator n (Suc n)
      (w0\<lparr>heap := heap w0 @ [Component1 None, Component2 None]\<rparr>) = (g, Inr (Suc (Suc n)))"
    unfolding n_def g_def by (rule new_ConcreteMediator_fresh)
  have ag: "attached_graph g n (Suc n) (Suc (Suc n))"
    by (simp add: attached_graph_def g_def lookup_def n_def nth_append)
  have ag1: "attached_graph (print s g) n (Suc n) (Suc (Suc n))" for s
    using ag by simp
  have ag2: "attached_graph (print s (print_end t [] w)) n (Suc n) (Suc (Suc n))"
    if "attached_graph w n (Suc n) (Suc (Suc n))" for s t w
    using that by (simp add: attached_graph_def)
  define wa where "wa = print ''Component 2 does C.''
      (print ''Mediator reacts on A and triggers following operations:''
        (print ''Component 1 does A.'' (print ''Client triggers operation A.'' g)))"
  define wd where "wd = print ''Client triggers operation D.'' (print_end [CHR 0x0A] [] wa)"
  define wf where "wf = print ''Component 2 does C.''
      (print ''Component 1 does B.''
        (print ''Mediator reacts on D and triggers following operations:''
          (print ''Component 2 does D.'' wd)))"
  have a: "do_a n (print ''Client triggers operation A.'' g) = (wa, None)"
    unfolding wa_def by (rule do_a_attached [OF ag1])
  have "attached_graph wa n (Suc n) (Suc (Suc n))"
    using ag by (simp add: wa_def)
  then have agd: "attached_graph wd n (Suc n) (Suc (Suc n))"
    unfolding wd_def by (rule ag2)
  have d: "do_d (Suc n) wd = (wf, None)"
    unfolding wf_def by (rule do_d_attached [OF agd])
  have m: "main argv w0 = (wf, None)"
    by (simp add: main_def new_Component1_def new_Component2_def alloc_def
        n_def [symmetric] build a wd_def [symmetric] d)
  show ?thesis
    unfolding m
    by (simp add: exit_code_def wf_def wd_def wa_def g_def n_def print_def print_end_def)
qed

subsection \<open>The object graph is not mutated\<close>

lemma heap_invoke: "heap (fst (invoke c w)) = heap w"
  using extends_notify extends_do_a extends_do_b extends_do_c extends_do_d
  by (cases c) (simp_all add: extends_def)

text \<open>
  Claim C10. Any sequence of calls to \<^verbatim>\<open>do_a\<close>, \<^verbatim>\<open>do_b\<close>, \<^verbatim>\<open>do_c\<close>, \<^verbatim>\<open>do_d\<close> and \<^verbatim>\<open>notify\<close>
  leaves the store as it was: every object, hence every component's mediator reference
  and the mediator's two component references, is the one found before the calls.
\<close>

theorem calls_preserve_object_graph:
  "heap (fst (invoke_all cs w)) = heap w
   \<and> lookup (fst (invoke_all cs w)) a = lookup w a"
proof (induction cs arbitrary: w)
  case Nil
  show ?case by simp
next
  case (Cons c cs)
  obtain w' r where i: "invoke c w = (w', r)"
    by (cases "invoke c w")
  have h: "heap w' = heap w"
    using heap_invoke [of c w] i by simp
  then have l: "lookup w' a = lookup w a"
    by (simp add: lookup_def)
  show ?case
    using Cons.IH [of w'] h l i by (cases r) simp_all
qed

end
